theory Spec2Isabelle
  imports Main "HOL-Library.Word"
begin

unbundle bit_operations_syntax

section \<open>Python values, errors and the environment of the preprocessor\<close>

text \<open>
  The module under verification is \<^verbatim>\<open>nbconvert/preprocessors/csshtmlheader.py\<close>: the class
  \<^verbatim>\<open>CSSHTMLHeaderPreprocessor\<close> with its methods \<^verbatim>\<open>__init__\<close>, \<^verbatim>\<open>preprocess\<close>,
  \<^verbatim>\<open>_generate_header\<close> and \<^verbatim>\<open>_hash\<close>. It is modelled with the semantics of Python 3 on a
  POSIX system. A Python \<^verbatim>\<open>str\<close> is a list of code points, a \<^verbatim>\<open>bytes\<close> object a list of
  8-bit words.
\<close>

type_synonym byte = "8 word"
type_synonym bytes = "byte list"
type_synonym pystr = "nat list"

text \<open>A string literal of the source (ASCII) as a Python \<^verbatim>\<open>str\<close>.\<close>

definition str :: "string \<Rightarrow> pystr" where
  "str s = map of_char s"

text \<open>The values a resources dictionary can hold.\<close>

datatype pyval =
    PNone
  | PInt int
  | PStr pystr
  | PList "pyval list"
  | PDict "pystr \<Rightarrow> pyval option"

type_synonym resources = "pystr \<Rightarrow> pyval option"

text \<open>The exceptions that can leave the module.\<close>

datatype error =
    KeyError pystr
  | TypeError
  | FileNotFoundError pystr
  | IsADirectoryError pystr
  | PermissionError pystr
  | UnicodeDecodeError

subsection \<open>The file system\<close>

datatype node = Directory | Regular (readable: bool) (content: bytes)

type_synonym filesystem = "pystr \<Rightarrow> node option"

text \<open>\<^verbatim>\<open>os.path.isfile\<close>: the path names a regular file.\<close>

definition os_path_isfile :: "filesystem \<Rightarrow> pystr \<Rightarrow> bool" where
  "os_path_isfile files name =
     (case files name of Some (Regular r c) \<Rightarrow> True | Some Directory \<Rightarrow> False | None \<Rightarrow> False)"

text \<open>Opening a file for reading and reading all of its bytes.\<close>

definition read_bytes :: "filesystem \<Rightarrow> pystr \<Rightarrow> error + bytes" where
  "read_bytes files name =
     (case files name of
        None \<Rightarrow> Inl (FileNotFoundError name)
      | Some Directory \<Rightarrow> Inl (IsADirectoryError name)
      | Some (Regular r c) \<Rightarrow> if r then Inr c else Inl (PermissionError name))"

text \<open>
  \<^verbatim>\<open>posixpath.join\<close> and \<^verbatim>\<open>posixpath.dirname\<close>; the separator \<^verbatim>\<open>/\<close> is code point 47.
\<close>

definition sep :: nat where
  "sep = 47"

definition join2 :: "pystr \<Rightarrow> pystr \<Rightarrow> pystr" where
  "join2 path b =
     (if take 1 b = [sep] then b
      else if path = [] \<or> last path = sep then path @ b
      else path @ [sep] @ b)"

definition os_path_join :: "pystr \<Rightarrow> pystr list \<Rightarrow> pystr" where
  "os_path_join a p = foldl join2 a p"

definition os_path_dirname :: "pystr \<Rightarrow> pystr" where
  "os_path_dirname p =
     (let head = rev (dropWhile (\<lambda>c. c \<noteq> sep) (rev p))
      in if head \<noteq> [] \<and> head \<noteq> replicate (length head) sep
         then rev (dropWhile (\<lambda>c. c = sep) (rev head))
         else head)"

subsection \<open>Text mode: decoding and universal newlines\<close>

text \<open>
  A file opened in text mode with the default \<^verbatim>\<open>newline=None\<close> is decoded, and every
  \<^verbatim>\<open>\r\n\<close> and every lone \<^verbatim>\<open>\r\<close> of the decoded text is returned as \<^verbatim>\<open>\n\<close>.
\<close>

fun universal_newlines :: "pystr \<Rightarrow> pystr" where
  "universal_newlines [] = []"
| "universal_newlines (c # cs) =
     (if c = 13
      then (case cs of
              [] \<Rightarrow> [10]
            | d # ds \<Rightarrow> if d = 10 then 10 # universal_newlines ds
                        else 10 # universal_newlines cs)
      else c # universal_newlines cs)"

definition text_read :: "(bytes \<Rightarrow> pystr option) \<Rightarrow> filesystem \<Rightarrow> pystr \<Rightarrow> error + pystr" where
  "text_read decode files name =
     (case read_bytes files name of
        Inl e \<Rightarrow> Inl e
      | Inr raw \<Rightarrow>
          (case decode raw of
             None \<Rightarrow> Inl UnicodeDecodeError
           | Some s \<Rightarrow> Inr (universal_newlines s)))"

text \<open>The strict \<^verbatim>\<open>utf-8\<close> codec: no overlong forms, no surrogates, nothing above U+10FFFF.\<close>

definition continuation :: "byte \<Rightarrow> bool" where
  "continuation b = (128 \<le> unat b \<and> unat b \<le> 191)"

fun utf8_decode :: "bytes \<Rightarrow> pystr option" where
  "utf8_decode [] = Some []"
| "utf8_decode (b # bs) =
     (let n = unat b in
      if n < 128 then map_option ((#) n) (utf8_decode bs)
      else if 194 \<le> n \<and> n \<le> 223 then
        (case bs of
           c1 # r \<Rightarrow>
             if continuation c1
             then map_option ((#) ((n - 192) * 64 + (unat c1 - 128))) (utf8_decode r)
             else None
         | _ \<Rightarrow> None)
      else if 224 \<le> n \<and> n \<le> 239 then
        (case bs of
           c1 # c2 # r \<Rightarrow>
             if continuation c1 \<and> continuation c2
                \<and> (if n = 224 then 160 \<le> unat c1 else True)
                \<and> (if n = 237 then unat c1 \<le> 159 else True)
             then map_option
                    ((#) ((n - 224) * 4096 + (unat c1 - 128) * 64 + (unat c2 - 128)))
                    (utf8_decode r)
             else None
         | _ \<Rightarrow> None)
      else if 240 \<le> n \<and> n \<le> 244 then
        (case bs of
           c1 # c2 # c3 # r \<Rightarrow>
             if continuation c1 \<and> continuation c2 \<and> continuation c3
                \<and> (if n = 240 then 144 \<le> unat c1 else True)
                \<and> (if n = 244 then unat c1 \<le> 143 else True)
             then map_option
                    ((#) ((n - 240) * 262144 + (unat c1 - 128) * 4096
                          + (unat c2 - 128) * 64 + (unat c3 - 128)))
                    (utf8_decode r)
             else None
         | _ \<Rightarrow> None)
      else None)"

text \<open>
  Encoding to UTF-8 with the error handler \<^verbatim>\<open>replace\<close>: a code point that has no encoding
  (a surrogate) becomes \<^verbatim>\<open>?\<close>.
\<close>

definition utf8_encode_char :: "nat \<Rightarrow> bytes" where
  "utf8_encode_char c =
     (if c < 128 then [of_nat c]
      else if c < 2048 then [of_nat (192 + c div 64), of_nat (128 + c mod 64)]
      else if 55296 \<le> c \<and> c \<le> 57343 then [63]
      else if c < 65536 then
        [of_nat (224 + c div 4096), of_nat (128 + c div 64 mod 64), of_nat (128 + c mod 64)]
      else if c < 1114112 then
        [of_nat (240 + c div 262144), of_nat (128 + c div 4096 mod 64),
         of_nat (128 + c div 64 mod 64), of_nat (128 + c mod 64)]
      else [63])"

definition utf8_encode :: "pystr \<Rightarrow> bytes" where
  "utf8_encode s = concat (map utf8_encode_char s)"

subsection \<open>\<^verbatim>\<open>hashlib.md5\<close>\<close>

text \<open>The MD5 message digest of RFC 1321, on 32-bit words.\<close>

type_synonym u32 = "32 word"

definition md5_s :: "nat list" where
  "md5_s = [7, 12, 17, 22, 7, 12, 17, 22, 7, 12, 17, 22, 7, 12, 17, 22,
            5, 9, 14, 20, 5, 9, 14, 20, 5, 9, 14, 20, 5, 9, 14, 20,
            4, 11, 16, 23, 4, 11, 16, 23, 4, 11, 16, 23, 4, 11, 16, 23,
            6, 10, 15, 21, 6, 10, 15, 21, 6, 10, 15, 21, 6, 10, 15, 21]"

definition md5_K :: "u32 list" where
  "md5_K = [0xd76aa478, 0xe8c7b756, 0x242070db, 0xc1bdceee,
            0xf57c0faf, 0x4787c62a, 0xa8304613, 0xfd469501,
            0x698098d8, 0x8b44f7af, 0xffff5bb1, 0x895cd7be,
            0x6b901122, 0xfd987193, 0xa679438e, 0x49b40821,
            0xf61e2562, 0xc040b340, 0x265e5a51, 0xe9b6c7aa,
            0xd62f105d, 0x02441453, 0xd8a1e681, 0xe7d3fbc8,
            0x21e1cde6, 0xc33707d6, 0xf4d50d87, 0x455a14ed,
            0xa9e3e905, 0xfcefa3f8, 0x676f02d9, 0x8d2a4c8a,
            0xfffa3942, 0x8771f681, 0x6d9d6122, 0xfde5380c,
            0xa4beea44, 0x4bdecfa9, 0xf6bb4b60, 0xbebfbc70,
            0x289b7ec6, 0xeaa127fa, 0xd4ef3085, 0x04881d05,
            0xd9d4d039, 0xe6db99e5, 0x1fa27cf8, 0xc4ac5665,
            0xf4292244, 0x432aff97, 0xab9423a7, 0xfc93a039,
            0x655b59c3, 0x8f0ccc92, 0xffeff47d, 0x85845dd1,
            0x6fa87e4f, 0xfe2ce6e0, 0xa3014314, 0x4e0811a1,
            0xf7537e82, 0xbd3af235, 0x2ad7d2bb, 0xeb86d391]"

definition rotl32 :: "nat \<Rightarrow> u32 \<Rightarrow> u32" where
  "rotl32 n x = push_bit n x OR drop_bit (32 - n) x"

definition le_word :: "bytes \<Rightarrow> u32" where
  "le_word bs = foldr (\<lambda>b w. push_bit 8 w OR ucast b) bs 0"

definition le_bytes :: "nat \<Rightarrow> 'a::len word \<Rightarrow> bytes" where
  "le_bytes k w = map (\<lambda>i. ucast (drop_bit (8 * i) w)) [0..<k]"

definition md5_pad :: "bytes \<Rightarrow> bytes" where
  "md5_pad m = m @ [0x80] @ replicate ((119 - length m mod 64) mod 64) 0
                 @ le_bytes 8 (of_nat (8 * length m) :: 64 word)"

fun chunks :: "nat \<Rightarrow> 'a list \<Rightarrow> 'a list list" where
  "chunks n [] = []"
| "chunks n xs = (if n = 0 then [xs] else take n xs # chunks n (drop n xs))"

definition md5_round :: "u32 list \<Rightarrow> u32 \<times> u32 \<times> u32 \<times> u32 \<Rightarrow> nat \<Rightarrow> u32 \<times> u32 \<times> u32 \<times> u32" where
  "md5_round M st i =
     (case st of (A, B, C, D) \<Rightarrow>
        let (F, g) =
              (if i < 16 then ((B AND C) OR (NOT B AND D), i)
               else if i < 32 then ((D AND B) OR (NOT D AND C), (5 * i + 1) mod 16)
               else if i < 48 then (B XOR C XOR D, (3 * i + 5) mod 16)
               else (C XOR (B OR NOT D), (7 * i) mod 16));
            F' = F + A + md5_K ! i + M ! g
        in (D, B + rotl32 (md5_s ! i) F', B, C))"

definition md5_chunk :: "u32 \<times> u32 \<times> u32 \<times> u32 \<Rightarrow> bytes \<Rightarrow> u32 \<times> u32 \<times> u32 \<times> u32" where
  "md5_chunk h chunk =
     (case h of (a0, b0, c0, d0) \<Rightarrow>
        case foldl (md5_round (map le_word (chunks 4 chunk))) h [0..<64] of
          (A, B, C, D) \<Rightarrow> (a0 + A, b0 + B, c0 + C, d0 + D))"

definition md5 :: "bytes \<Rightarrow> bytes" where
  "md5 m =
     (case foldl md5_chunk (0x67452301, 0xefcdab89, 0x98badcfe, 0x10325476)
             (chunks 64 (md5_pad m)) of
        (a, b, c, d) \<Rightarrow> concat (map (le_bytes 4) [a, b, c, d]))"

section \<open>The preprocessor\<close>

text \<open>
  What the module takes from its surroundings: the file system, the location of the package
  \<^verbatim>\<open>nbconvert.resources\<close> (its \<^verbatim>\<open>__file__\<close>), the style sheet generator of Pygments
  (\<^verbatim>\<open>HtmlFormatter().get_style_defs\<close>), the value of \<^verbatim>\<open>notebook.DEFAULT_STATIC_FILES_PATH\<close>
  (\<open>None\<close> when the import fails), the codec with which the built-in \<^verbatim>\<open>open\<close> decodes a
  text file, and \<^verbatim>\<open>str_to_bytes\<close> of \<^verbatim>\<open>ipython_genutils.py3compat\<close>, which encodes with
  the default encoding and the error handler \<^verbatim>\<open>replace\<close> and therefore never raises.
  The last field is the method \<^verbatim>\<open>__missing__\<close> of the class of the resources object:
  \<open>None\<close> for a plain \<^verbatim>\<open>dict\<close>, whose subscript raises \<^verbatim>\<open>KeyError\<close> for an absent key, and
  \<open>Some v\<close> for a subclass whose \<^verbatim>\<open>__missing__\<close> returns \<open>v\<close> and stores nothing, as
  \<^verbatim>\<open>ResourcesDict\<close> of \<^verbatim>\<open>nbconvert.exporters.exporter\<close> does with the empty string.
\<close>

record environment =
  fs :: filesystem
  resources_file :: pystr
  get_style_defs :: "pystr \<Rightarrow> pystr"
  DEFAULT_STATIC_FILES_PATH :: "pystr option"
  locale_decode :: "bytes \<Rightarrow> pystr option"
  str_to_bytes :: "pystr \<Rightarrow> bytes"
  resources_missing :: "pyval option"

text \<open>The subscript \<^verbatim>\<open>resources[key]\<close>.\<close>

definition getitem :: "environment \<Rightarrow> resources \<Rightarrow> pystr \<Rightarrow> error + pyval" where
  "getitem env resources key =
     (case resources key of
        Some v \<Rightarrow> Inr v
      | None \<Rightarrow>
          (case resources_missing env of
             None \<Rightarrow> Inl (KeyError key)
           | Some v \<Rightarrow> Inr v))"

text \<open>The instance: the trait \<^verbatim>\<open>highlight_class\<close> and the field \<^verbatim>\<open>_default_css_hash\<close>.\<close>

record CSSHTMLHeaderPreprocessor =
  highlight_class :: pystr
  default_css_hash :: "bytes option"

text \<open>
  \<^verbatim>\<open>__init__\<close>; the argument is the configured value of the trait, \<^verbatim>\<open>.highlight\<close> by default.
\<close>

definition init :: "pystr \<Rightarrow> CSSHTMLHeaderPreprocessor" where
  "init hc = \<lparr>highlight_class = hc, default_css_hash = None\<rparr>"

text \<open>
  Every call of \<^verbatim>\<open>open\<close> or \<^verbatim>\<open>io.open\<close> is recorded, with the file name and the place of
  the call: the style sheet (line 61), the hash of the default custom.css (line 81), the
  hash of the user's custom.css (line 82), the content of the user's custom.css (line 83).
\<close>

datatype io_event =
    ReadSheet pystr
  | HashDefault pystr
  | HashCustom pystr
  | ReadCustom pystr

fun is_HashDefault :: "io_event \<Rightarrow> bool" where
  "is_HashDefault (HashDefault f) = True"
| "is_HashDefault (ReadSheet f) = False"
| "is_HashDefault (HashCustom f) = False"
| "is_HashDefault (ReadCustom f) = False"

text \<open>\<^verbatim>\<open>io.open(name, encoding='utf-8')\<close> followed by \<^verbatim>\<open>f.read()\<close>.\<close>

definition io_open_read :: "filesystem \<Rightarrow> pystr \<Rightarrow> error + pystr" where
  "io_open_read files name = text_read utf8_decode files name"

text \<open>
  \<^verbatim>\<open>_hash\<close> (lines 87 to 92): the file is opened by \<^verbatim>\<open>open(filename)\<close>, that is in text
  mode, its text is encoded again by \<^verbatim>\<open>str_to_bytes\<close>, and the MD5 digest of these bytes
  is returned.
\<close>

definition hash :: "environment \<Rightarrow> pystr \<Rightarrow> error + bytes" where
  "hash env filename =
     (case text_read (locale_decode env) (fs env) filename of
        Inl e \<Rightarrow> Inl e
      | Inr s \<Rightarrow> Inr (md5 (str_to_bytes env s)))"

text \<open>The three file names of \<^verbatim>\<open>_generate_header\<close> (lines 55 to 58, 78 and 81).\<close>

definition sheet_filename :: "environment \<Rightarrow> pystr" where
  "sheet_filename env =
     os_path_join (os_path_dirname (resources_file env)) [str ''style.min.css'']"

definition custom_css_filename :: "pystr \<Rightarrow> pystr" where
  "custom_css_filename config_dir = os_path_join config_dir [str ''custom'', str ''custom.css'']"

definition default_css_filename :: "pystr \<Rightarrow> pystr" where
  "default_css_filename static = os_path_join static [str ''custom'', str ''custom.css'']"

text \<open>
  Lines 80 and 81: when \<^verbatim>\<open>DEFAULT_STATIC_FILES_PATH\<close> is true (neither \<open>None\<close> nor the empty
  string) and the field is \<open>None\<close>, the default custom.css is hashed and the field set. The
  result is the instance, the files opened and the exception raised, if any.
\<close>

definition cache_default_css_hash ::
  "environment \<Rightarrow> CSSHTMLHeaderPreprocessor
     \<Rightarrow> CSSHTMLHeaderPreprocessor \<times> io_event list \<times> error option" where
  "cache_default_css_hash env self =
     (case DEFAULT_STATIC_FILES_PATH env of
        None \<Rightarrow> (self, [], None)
      | Some static \<Rightarrow>
          if static \<noteq> [] \<and> default_css_hash self = None
          then (case hash env (default_css_filename static) of
                  Inl e \<Rightarrow> (self, [HashDefault (default_css_filename static)], Some e)
                | Inr h \<Rightarrow> (self\<lparr>default_css_hash := Some h\<rparr>,
                            [HashDefault (default_css_filename static)], None))
          else (self, [], None))"

text \<open>
  Lines 82 to 84: the user's custom.css is hashed, and read and appended when its hash is
  not the value of the field.
\<close>

definition append_custom_css ::
  "environment \<Rightarrow> CSSHTMLHeaderPreprocessor \<Rightarrow> pystr list \<Rightarrow> pystr
     \<Rightarrow> io_event list \<times> (error + pystr list)" where
  "append_custom_css env self header name =
     (case hash env name of
        Inl e \<Rightarrow> ([HashCustom name], Inl e)
      | Inr h \<Rightarrow>
          if Some h \<noteq> default_css_hash self
          then (case io_open_read (fs env) name of
                  Inl e \<Rightarrow> ([HashCustom name, ReadCustom name], Inl e)
                | Inr css \<Rightarrow> ([HashCustom name, ReadCustom name], Inr (header @ [css])))
          else ([HashCustom name], Inr header))"

text \<open>
  \<^verbatim>\<open>_generate_header\<close> (lines 45 to 85). The result is the instance after the call, the
  files opened in the order of the calls, and the header or the exception raised.
\<close>

definition generate_header ::
  "environment \<Rightarrow> CSSHTMLHeaderPreprocessor \<Rightarrow> resources
     \<Rightarrow> CSSHTMLHeaderPreprocessor \<times> io_event list \<times> (error + pystr list)" where
  "generate_header env self resources =
     (let header = [] in
      case io_open_read (fs env) (sheet_filename env) of
        Inl e \<Rightarrow> (self, [ReadSheet (sheet_filename env)], Inl e)
      | Inr sheet \<Rightarrow>
          let header = header @ [sheet];
              pygments_css = get_style_defs env (highlight_class self);
              header = header @ [pygments_css]
          in (case getitem env resources (str ''config_dir'') of
                Inl e \<Rightarrow> (self, [ReadSheet (sheet_filename env)], Inl e)
              | Inr (PStr config_dir) \<Rightarrow>
                  if os_path_isfile (fs env) (custom_css_filename config_dir)
                  then (case cache_default_css_hash env self of
                          (self', tr, Some e) \<Rightarrow>
                            (self', ReadSheet (sheet_filename env) # tr, Inl e)
                        | (self', tr, None) \<Rightarrow>
                            (case append_custom_css env self' header
                                    (custom_css_filename config_dir) of
                               (tr', r) \<Rightarrow>
                                 (self', ReadSheet (sheet_filename env) # tr @ tr', r)))
                  else (self, [ReadSheet (sheet_filename env)], Inr header)
              | Inr _ \<Rightarrow> (self, [ReadSheet (sheet_filename env)], Inl TypeError)))"

text \<open>
  \<^verbatim>\<open>preprocess\<close> (lines 26 to 43). Line 41 binds the key \<^verbatim>\<open>inlining\<close> to a new empty
  dictionary before \<^verbatim>\<open>_generate_header\<close> is called; line 42 stores the header in that
  dictionary. The dictionary is changed in place, so the result also gives the resources
  as the caller sees them when an exception is raised.
\<close>

definition preprocess ::
  "environment \<Rightarrow> CSSHTMLHeaderPreprocessor \<Rightarrow> 'nb \<Rightarrow> resources
     \<Rightarrow> CSSHTMLHeaderPreprocessor \<times> io_event list \<times> resources \<times> (error + 'nb \<times> resources)" where
  "preprocess env self nb resources =
     (let resources1 = resources(str ''inlining'' \<mapsto> PDict Map.empty) in
      case generate_header env self resources1 of
        (self', tr, Inl e) \<Rightarrow> (self', tr, resources1, Inl e)
      | (self', tr, Inr header) \<Rightarrow>
          (case getitem env resources1 (str ''inlining'') of
             Inl e \<Rightarrow> (self', tr, resources1, Inl e)
           | Inr (PDict d) \<Rightarrow>
               let resources2 =
                     resources1(str ''inlining'' \<mapsto>
                                  PDict (d(str ''css'' \<mapsto> PList (map PStr header))))
               in (self', tr, resources2, Inr (nb, resources2))
           | Inr _ \<Rightarrow> (self', tr, resources1, Inl TypeError)))"


definition getitem2 :: "resources \<Rightarrow> pystr \<Rightarrow> pystr \<Rightarrow> pyval option" where
  "getitem2 resources k1 k2 =
     (case resources k1 of Some (PDict d) \<Rightarrow> d k2 | Some _ \<Rightarrow> None | None \<Rightarrow> None)"

subsection \<open>Several calls on one instance\<close>

text \<open>
  The instance after a sequence of calls of \<^verbatim>\<open>preprocess\<close>, each in its own environment
  and on its own resources; a call that raises leaves the instance as it was at the raise.
\<close>

fun invocations ::
  "CSSHTMLHeaderPreprocessor \<Rightarrow> (environment \<times> resources) list \<Rightarrow> CSSHTMLHeaderPreprocessor" where
  "invocations self [] = self"
| "invocations self ((env, res) # calls) = invocations (fst (preprocess env self () res)) calls"

text \<open>
  A call computes the hash of the default custom.css when it reaches line 81 and the
  assignment of that line is completed.
\<close>

definition computes_default_hash ::
  "environment \<Rightarrow> CSSHTMLHeaderPreprocessor \<Rightarrow> resources \<Rightarrow> bool" where
  "computes_default_hash env self res =
     (case preprocess env self () res of
        (self', tr, rest) \<Rightarrow> list_ex is_HashDefault tr \<and> default_css_hash self' \<noteq> None)"

fun default_hash_computations ::
  "CSSHTMLHeaderPreprocessor \<Rightarrow> (environment \<times> resources) list \<Rightarrow> nat" where
  "default_hash_computations self [] = 0"
| "default_hash_computations self ((env, res) # calls) =
     (if computes_default_hash env self res then 1 else 0)
     + default_hash_computations (fst (preprocess env self () res)) calls"

subsection \<open>A concrete installation\<close>

text \<open>
  The package is installed under \<^verbatim>\<open>/pkg\<close>, the notebook's static files under \<^verbatim>\<open>/static\<close>,
  the configuration directory is \<^verbatim>\<open>/cfg\<close>, everything is UTF-8, and the resources are a
  plain \<^verbatim>\<open>dict\<close>. The first argument is \<^verbatim>\<open>DEFAULT_STATIC_FILES_PATH\<close>, the other two are
  the bytes of the default custom.css and of the user's custom.css, \<open>None\<close> for a file
  that does not exist.
\<close>

definition example_files :: "bytes option \<Rightarrow> bytes option \<Rightarrow> filesystem" where
  "example_files dflt custom =
     (\<lambda>name.
        if name = str ''/pkg/resources/style.min.css'' then Some (Regular True [98, 123, 125])
        else if name = str ''/static/custom/custom.css'' then map_option (Regular True) dflt
        else if name = str ''/cfg/custom/custom.css'' then map_option (Regular True) custom
        else if name = str ''/pkg/resources'' then Some Directory
        else None)"

definition example_env :: "pystr option \<Rightarrow> bytes option \<Rightarrow> bytes option \<Rightarrow> environment" where
  "example_env static dflt custom =
     \<lparr>fs = example_files dflt custom,
      resources_file = str ''/pkg/resources/__init__.py'',
      get_style_defs = (\<lambda>c. c @ str '' .k{}''),
      DEFAULT_STATIC_FILES_PATH = static,
      locale_decode = utf8_decode,
      str_to_bytes = utf8_encode,
      resources_missing = None\<rparr>"

text \<open>
  The same installation without a default location and without custom.css files, called
  with a resources object whose \<^verbatim>\<open>__missing__\<close> returns the empty string.
\<close>

definition example_env_resources_dict :: environment where
  "example_env_resources_dict = (example_env None None None)\<lparr>resources_missing := Some (PStr [])\<rparr>"

definition example_resources :: resources where
  "example_resources = [str ''config_dir'' \<mapsto> PStr (str ''/cfg'')]"

definition example_resources_js :: resources where
  "example_resources_js =
     [str ''config_dir'' \<mapsto> PStr (str ''/cfg''),
      str ''inlining'' \<mapsto> PDict [str ''js'' \<mapsto> PStr (str ''x'')]]"

definition example_resources_no_config_dir :: resources where
  "example_resources_no_config_dir = [str ''unique_key'' \<mapsto> PStr (str ''notebook'')]"

definition example_self :: CSSHTMLHeaderPreprocessor where
  "example_self = init (str ''.highlight'')"

section \<open>Properties\<close>


subsection \<open>Facts about the model\<close>

lemma md5_length: "length (md5 m) = 16"
  by (simp add: md5_def le_bytes_def split: prod.splits)

lemma config_dir_not_inlining: "str ''config_dir'' \<noteq> str ''inlining''"
  by (simp add: str_def)

lemma getitem_present: "resources key = Some v \<Longrightarrow> getitem env resources key = Inr v"
  by (simp add: getitem_def)

lemma getitem_update: "getitem env (resources(key \<mapsto> v)) key = Inr v"
  by (simp add: getitem_def)

lemma getitem_config_dir_inlining:
  "getitem env (resources(str ''inlining'' \<mapsto> v)) (str ''config_dir'')
     = getitem env resources (str ''config_dir'')"
  by (simp add: getitem_def config_dir_not_inlining)

lemma generate_header_inlining:
  "generate_header env self (resources(str ''inlining'' \<mapsto> v)) = generate_header env self resources"
  by (simp add: generate_header_def getitem_config_dir_inlining cong: sum.case_cong)

lemma preprocess_generate_header:
  "preprocess env self nb resources =
     (case generate_header env self resources of
        (self', tr, Inl e) \<Rightarrow> (self', tr, resources(str ''inlining'' \<mapsto> PDict Map.empty), Inl e)
      | (self', tr, Inr header) \<Rightarrow>
          (self', tr,
           resources(str ''inlining'' \<mapsto> PDict [str ''css'' \<mapsto> PList (map PStr header)]),
           Inr (nb, resources(str ''inlining'' \<mapsto> PDict [str ''css'' \<mapsto> PList (map PStr header)]))))"
  by (simp add: preprocess_def generate_header_inlining getitem_update Let_def
           split: prod.splits sum.splits)

lemma generate_header_trace_length:
  "length (fst (snd (generate_header env self resources))) \<le> 4"
  by (simp add: generate_header_def cache_default_css_hash_def append_custom_css_def Let_def
           split: sum.splits option.splits pyval.splits prod.splits)

subsection \<open>Facts about the concrete installation\<close>

lemma example_env_simps:
  "fs (example_env static dflt custom) = example_files dflt custom"
  "resources_file (example_env static dflt custom) = str ''/pkg/resources/__init__.py''"
  "get_style_defs (example_env static dflt custom) c = c @ str '' .k{}''"
  "DEFAULT_STATIC_FILES_PATH (example_env static dflt custom) = static"
  "locale_decode (example_env static dflt custom) = utf8_decode"
  "str_to_bytes (example_env static dflt custom) = utf8_encode"
  by (simp_all add: example_env_def)

lemma example_env_plain_dict: "resources_missing (example_env static dflt custom) = None"
  by (simp add: example_env_def)

lemma example_sheet_filename:
  "sheet_filename (example_env static dflt custom) = str ''/pkg/resources/style.min.css''"
  by (simp add: sheet_filename_def example_env_simps os_path_join_def os_path_dirname_def
                join2_def sep_def str_def)

lemma example_custom_css_filename:
  "custom_css_filename (str ''/cfg'') = str ''/cfg/custom/custom.css''"
  by (simp add: custom_css_filename_def os_path_join_def join2_def sep_def str_def)

lemma example_default_css_filename:
  "default_css_filename (str ''/static'') = str ''/static/custom/custom.css''"
  by (simp add: default_css_filename_def os_path_join_def join2_def sep_def str_def)

lemma example_files_sheet:
  "example_files dflt custom (str ''/pkg/resources/style.min.css'') = Some (Regular True [98, 123, 125])"
  by (simp add: example_files_def)

lemma example_files_default:
  "example_files dflt custom (str ''/static/custom/custom.css'') = map_option (Regular True) dflt"
  by (simp add: example_files_def str_def)

lemma example_files_custom:
  "example_files dflt custom (str ''/cfg/custom/custom.css'') = map_option (Regular True) custom"
  by (simp add: example_files_def str_def)

lemma example_sheet:
  "io_open_read (fs (example_env static dflt custom)) (sheet_filename (example_env static dflt custom))
     = Inr [98, 123, 125]"
  by (simp add: example_sheet_filename example_env_simps io_open_read_def text_read_def
                read_bytes_def example_files_sheet)

lemma example_resources_config_dir:
  "example_resources (str ''config_dir'') = Some (PStr (str ''/cfg''))"
  by (simp add: example_resources_def)

lemma utf8_encode_a: "utf8_encode [97, 10] = [97, 10]"
  by (simp add: utf8_encode_def utf8_encode_char_def)

lemma utf8_encode_b: "utf8_encode [98, 10] = [98, 10]"
  by (simp add: utf8_encode_def utf8_encode_char_def)

text \<open>The digest of the empty message, as given in RFC 1321.\<close>

lemma md5_empty:
  "md5 [] = [0xd4, 0x1d, 0x8c, 0xd9, 0x8f, 0x00, 0xb2, 0x04,
             0xe9, 0x80, 0x09, 0x98, 0xec, 0xf8, 0x42, 0x7e]"
  by code_simp

lemma md5_a_b: "md5 [97, 10] \<noteq> md5 [98, 10]"
  by code_simp


lemma example_isfile_custom:
  "os_path_isfile (fs (example_env static dflt (Some c))) (custom_css_filename (str ''/cfg''))"
  by (simp add: example_env_simps example_custom_css_filename os_path_isfile_def example_files_custom)

lemma example_not_isfile_custom:
  "\<not> os_path_isfile (fs (example_env static dflt None)) (custom_css_filename (str ''/cfg''))"
  by (simp add: example_env_simps example_custom_css_filename os_path_isfile_def example_files_custom)

lemma example_hash_default:
  "hash (example_env static (Some [97, 10]) custom) (default_css_filename (str ''/static''))
     = Inr (md5 [97, 10])"
  by (simp add: hash_def text_read_def read_bytes_def example_env_simps
                example_default_css_filename example_files_default utf8_encode_a)

lemma example_hash_default_missing:
  "hash (example_env static None custom) (default_css_filename (str ''/static''))
     = Inl (FileNotFoundError (default_css_filename (str ''/static'')))"
  by (simp add: hash_def text_read_def read_bytes_def example_env_simps
                example_default_css_filename example_files_default)


lemma example_hash_custom_crlf:
  "hash (example_env static dflt (Some [97, 13, 10])) (custom_css_filename (str ''/cfg''))
     = Inr (md5 [97, 10])"
  by (simp add: hash_def text_read_def read_bytes_def example_env_simps
                example_custom_css_filename example_files_custom utf8_encode_a)

lemma example_hash_custom_b:
  "hash (example_env static dflt (Some [98, 10])) (custom_css_filename (str ''/cfg''))
     = Inr (md5 [98, 10])"
  by (simp add: hash_def text_read_def read_bytes_def example_env_simps
                example_custom_css_filename example_files_custom utf8_encode_b)


lemma example_read_custom_b:
  "io_open_read (fs (example_env static dflt (Some [98, 10]))) (custom_css_filename (str ''/cfg''))
     = Inr [98, 10]"
  by (simp add: io_open_read_def text_read_def read_bytes_def example_env_simps
                example_custom_css_filename example_files_custom)

subsection \<open>The files a call opens (C9)\<close>

text \<open>
  Claim C9, as amended. The claim bounds the files opened and read by one call by three.
  A call opens at most four: the style sheet, the default custom.css for its hash, the
  user's custom.css for its hash, and the user's custom.css again for its content.
\<close>

theorem at_most_four_file_reads:
  "length (fst (snd (preprocess env self nb resources))) \<le> 4"
proof -
  have "fst (snd (preprocess env self nb resources)) = fst (snd (generate_header env self resources))"
    by (simp add: preprocess_generate_header split: prod.splits sum.splits)
  then show ?thesis
    by (simp add: generate_header_trace_length)
qed

lemma generate_header_custom_present_getitem:
  assumes "io_open_read (fs env) (sheet_filename env) = Inr sheet"
      and "getitem env resources (str ''config_dir'') = Inr (PStr config_dir)"
      and "os_path_isfile (fs env) (custom_css_filename config_dir)"
  shows "generate_header env self resources =
           (case cache_default_css_hash env self of
              (self', tr, Some e) \<Rightarrow> (self', ReadSheet (sheet_filename env) # tr, Inl e)
            | (self', tr, None) \<Rightarrow>
                (case append_custom_css env self'
                        [sheet, get_style_defs env (highlight_class self)]
                        (custom_css_filename config_dir) of
                   (tr', r) \<Rightarrow> (self', ReadSheet (sheet_filename env) # tr @ tr', r)))"
  using assms by (simp add: generate_header_def)

lemma generate_header_custom_present:
  assumes "io_open_read (fs env) (sheet_filename env) = Inr sheet"
      and "resources (str ''config_dir'') = Some (PStr config_dir)"
      and "os_path_isfile (fs env) (custom_css_filename config_dir)"
  shows "generate_header env self resources =
           (case cache_default_css_hash env self of
              (self', tr, Some e) \<Rightarrow> (self', ReadSheet (sheet_filename env) # tr, Inl e)
            | (self', tr, None) \<Rightarrow>
                (case append_custom_css env self'
                        [sheet, get_style_defs env (highlight_class self)]
                        (custom_css_filename config_dir) of
                   (tr', r) \<Rightarrow> (self', ReadSheet (sheet_filename env) # tr @ tr', r)))"
  by (rule generate_header_custom_present_getitem
             [where resources = resources,
              OF assms(1) getitem_present [where resources = resources, OF assms(2)] assms(3)])

lemma example_generate_header_b:
  "generate_header (example_env (Some (str ''/static'')) (Some [97, 10]) (Some [98, 10]))
       example_self example_resources =
     (example_self\<lparr>default_css_hash := Some (md5 [97, 10])\<rparr>,
      [ReadSheet (str ''/pkg/resources/style.min.css''),
       HashDefault (str ''/static/custom/custom.css''),
       HashCustom (str ''/cfg/custom/custom.css''),
       ReadCustom (str ''/cfg/custom/custom.css'')],
      Inr ([98, 123, 125] # [str ''.highlight .k{}'', [98, 10]]))"
proof -
  let ?E = "example_env (Some (str ''/static'')) (Some [97, 10]) (Some [98, 10])"
  have sheet: "io_open_read (fs ?E) (sheet_filename ?E) = Inr [98, 123, 125]"
    by (rule example_sheet)
  have isfile: "os_path_isfile (fs ?E) (custom_css_filename (str ''/cfg''))"
    by (rule example_isfile_custom)
  have nonempty: "str ''/static'' \<noteq> []"
    by (simp add: str_def)
  have hc: "str ''.highlight'' @ str '' .k{}'' = str ''.highlight .k{}''"
    by (simp add: str_def)
  show ?thesis
    by (simp add: generate_header_custom_present [where resources = example_resources, OF sheet example_resources_config_dir isfile]
          cache_default_css_hash_def append_custom_css_def example_env_simps(3,4) nonempty
          example_hash_default example_hash_custom_b example_read_custom_b md5_a_b [symmetric]
          example_self_def init_def example_sheet_filename hc
          example_default_css_filename [symmetric] example_custom_css_filename [symmetric])
qed

text \<open>
  Claim C9 as stated fails: the first call of an instance, with the default location
  available and a user's custom.css that differs from the default one, opens four files.
\<close>

theorem four_file_reads_counterexample:
  "\<not> length (fst (snd (preprocess
        (example_env (Some (str ''/static'')) (Some [97, 10]) (Some [98, 10]))
        example_self () example_resources))) \<le> 3"
  by (simp add: preprocess_generate_header example_generate_header_b)


subsection \<open>A missing custom.css and a missing \<^verbatim>\<open>config_dir\<close> (C7, C8)\<close>

lemma cache_default_css_hash_kept:
  "default_css_hash self = Some h \<Longrightarrow> cache_default_css_hash env self = (self, [], None)"
  by (simp add: cache_default_css_hash_def split: option.splits)


lemma cache_default_css_hash_computed:
  "DEFAULT_STATIC_FILES_PATH env = Some static \<Longrightarrow> static \<noteq> [] \<Longrightarrow>
   default_css_hash self = None \<Longrightarrow>
   cache_default_css_hash env self =
     (case hash env (default_css_filename static) of
        Inl e \<Rightarrow> (self, [HashDefault (default_css_filename static)], Some e)
      | Inr h \<Rightarrow> (self\<lparr>default_css_hash := Some h\<rparr>,
                  [HashDefault (default_css_filename static)], None))"
  by (simp add: cache_default_css_hash_def)

lemma generate_header_custom_absent_getitem:
  assumes "io_open_read (fs env) (sheet_filename env) = Inr sheet"
      and "getitem env resources (str ''config_dir'') = Inr (PStr config_dir)"
      and "\<not> os_path_isfile (fs env) (custom_css_filename config_dir)"
  shows "generate_header env self resources =
           (self, [ReadSheet (sheet_filename env)],
            Inr [sheet, get_style_defs env (highlight_class self)])"
  using assms by (simp add: generate_header_def)

lemma generate_header_custom_absent:
  assumes "io_open_read (fs env) (sheet_filename env) = Inr sheet"
      and "resources (str ''config_dir'') = Some (PStr config_dir)"
      and "\<not> os_path_isfile (fs env) (custom_css_filename config_dir)"
  shows "generate_header env self resources =
           (self, [ReadSheet (sheet_filename env)],
            Inr [sheet, get_style_defs env (highlight_class self)])"
  by (rule generate_header_custom_absent_getitem
             [where resources = resources,
              OF assms(1) getitem_present [where resources = resources, OF assms(2)] assms(3)])

text \<open>
  Claim C7. When the file \<^verbatim>\<open><config_dir>/custom/custom.css\<close> does not exist, the call
  succeeds and stores exactly two blocks, the base style sheet followed by the highlighting
  CSS. The base style sheet of the package is readable and \<^verbatim>\<open>config_dir\<close> is a string, as
  the path of the claim presupposes.
\<close>

theorem missing_custom_css_two_blocks:
  assumes "io_open_read (fs env) (sheet_filename env) = Inr sheet"
      and "resources (str ''config_dir'') = Some (PStr config_dir)"
      and "\<not> os_path_isfile (fs env) (custom_css_filename config_dir)"
  shows "preprocess env self nb resources =
           (self, [ReadSheet (sheet_filename env)],
            resources(str ''inlining'' \<mapsto> PDict [str ''css'' \<mapsto>
              PList [PStr sheet, PStr (get_style_defs env (highlight_class self))]]),
            Inr (nb, resources(str ''inlining'' \<mapsto> PDict [str ''css'' \<mapsto>
              PList [PStr sheet, PStr (get_style_defs env (highlight_class self))]])))"
  by (simp add: preprocess_generate_header generate_header_custom_absent [where resources = resources, OF assms])

text \<open>The hypotheses of C7 hold in the example installation without a user's custom.css.\<close>

theorem missing_custom_css_two_blocks_witness:
  "io_open_read (fs (example_env (Some (str ''/static'')) (Some [97, 10]) None))
      (sheet_filename (example_env (Some (str ''/static'')) (Some [97, 10]) None))
     = Inr [98, 123, 125]
   \<and> example_resources (str ''config_dir'') = Some (PStr (str ''/cfg''))
   \<and> \<not> os_path_isfile (fs (example_env (Some (str ''/static'')) (Some [97, 10]) None))
          (custom_css_filename (str ''/cfg''))
   \<and> preprocess (example_env (Some (str ''/static'')) (Some [97, 10]) None)
        example_self () example_resources =
       (example_self,
        [ReadSheet (sheet_filename (example_env (Some (str ''/static'')) (Some [97, 10]) None))],
        example_resources(str ''inlining'' \<mapsto> PDict [str ''css'' \<mapsto>
          PList [PStr [98, 123, 125], PStr (str ''.highlight .k{}'')]]),
        Inr ((), example_resources(str ''inlining'' \<mapsto> PDict [str ''css'' \<mapsto>
          PList [PStr [98, 123, 125], PStr (str ''.highlight .k{}'')]])))"
proof -
  let ?E = "example_env (Some (str ''/static'')) (Some [97, 10]) None"
  have sheet: "io_open_read (fs ?E) (sheet_filename ?E) = Inr [98, 123, 125]"
    by (rule example_sheet)
  have absent: "\<not> os_path_isfile (fs ?E) (custom_css_filename (str ''/cfg''))"
    by (rule example_not_isfile_custom)
  have hc: "get_style_defs ?E (highlight_class example_self) = str ''.highlight .k{}''"
    by (simp add: example_env_simps example_self_def init_def str_def)
  show ?thesis
    using missing_custom_css_two_blocks
            [where resources = example_resources and self = example_self and nb = "()",
             OF sheet example_resources_config_dir absent]
          sheet example_resources_config_dir absent
    by (simp add: hc)
qed

lemma generate_header_missing_value:
  assumes "resources (str ''config_dir'') = None"
      and "resources_missing env = Some v"
  shows "generate_header env self resources
           = generate_header env self (resources(str ''config_dir'' \<mapsto> v))"
  using assms by (simp add: generate_header_def getitem_def cong: sum.case_cong)

text \<open>
  Claim C8, as amended. Line 77 is the bare subscript \<^verbatim>\<open>resources['config_dir']\<close>, and it
  comes after the base style sheet has been read. For resources of a class without
  \<^verbatim>\<open>__missing__\<close> that lack the key, the call fails and stores no \<^verbatim>\<open>css\<close> entry
  (\<^verbatim>\<open>resources['inlining']\<close> is left as the empty dictionary of line 41): with the
  \<^verbatim>\<open>KeyError\<close> of line 77, the specification's ConfigurationError, when the style sheet
  was read, and with the error of that read otherwise. For resources whose class has a
  \<^verbatim>\<open>__missing__\<close>, the absent key raises nothing: the header is generated as if the key
  were bound to the value that method returns.
\<close>

theorem missing_config_dir_key_error:
  assumes "resources (str ''config_dir'') = None"
  shows "(resources_missing env = None \<longrightarrow>
            preprocess env self nb resources =
              (self, [ReadSheet (sheet_filename env)],
               resources(str ''inlining'' \<mapsto> PDict Map.empty),
               (case io_open_read (fs env) (sheet_filename env) of
                  Inl e \<Rightarrow> Inl e
                | Inr sheet \<Rightarrow> Inl (KeyError (str ''config_dir'')))))
       \<and> (resources_missing env = Some v \<longrightarrow>
            generate_header env self resources
              = generate_header env self (resources(str ''config_dir'' \<mapsto> v)))"
proof -
  have "preprocess env self nb resources =
          (self, [ReadSheet (sheet_filename env)],
           resources(str ''inlining'' \<mapsto> PDict Map.empty),
           (case io_open_read (fs env) (sheet_filename env) of
              Inl e \<Rightarrow> Inl e
            | Inr sheet \<Rightarrow> Inl (KeyError (str ''config_dir''))))"
    if "resources_missing env = None"
    using assms that
    by (simp add: preprocess_generate_header generate_header_def getitem_def split: sum.splits)
  with generate_header_missing_value [where resources = resources, OF assms] show ?thesis
    by blast
qed

text \<open>
  The hypothesis of the amended C8 holds for a plain \<^verbatim>\<open>dict\<close> that holds another key
  only: in the example installation the call fails with \<^verbatim>\<open>KeyError\<close>.
\<close>

theorem missing_config_dir_key_error_witness:
  "example_resources_no_config_dir (str ''config_dir'') = None
   \<and> resources_missing (example_env None None None) = None
   \<and> io_open_read (fs (example_env None None None)) (sheet_filename (example_env None None None))
       = Inr [98, 123, 125]
   \<and> preprocess (example_env None None None) example_self () example_resources_no_config_dir =
       (example_self, [ReadSheet (sheet_filename (example_env None None None))],
        example_resources_no_config_dir(str ''inlining'' \<mapsto> PDict Map.empty),
        Inl (KeyError (str ''config_dir'')))"
proof -
  let ?E = "example_env None None None"
  have key: "example_resources_no_config_dir (str ''config_dir'') = None"
    by (simp add: example_resources_no_config_dir_def str_def)
  have plain: "resources_missing ?E = None"
    by (rule example_env_plain_dict)
  have sheet: "io_open_read (fs ?E) (sheet_filename ?E) = Inr [98, 123, 125]"
    by (rule example_sheet)
  from missing_config_dir_key_error
         [where resources = example_resources_no_config_dir and env = ?E
            and self = example_self and nb = "()", OF key] plain
  have "preprocess ?E example_self () example_resources_no_config_dir =
          (example_self, [ReadSheet (sheet_filename ?E)],
           example_resources_no_config_dir(str ''inlining'' \<mapsto> PDict Map.empty),
           (case io_open_read (fs ?E) (sheet_filename ?E) of
              Inl e \<Rightarrow> Inl e
            | Inr sheet \<Rightarrow> Inl (KeyError (str ''config_dir''))))"
    by blast
  with key plain sheet show ?thesis
    by simp
qed

lemma example_env_resources_dict_simps:
  "fs example_env_resources_dict = fs (example_env None None None)"
  "sheet_filename example_env_resources_dict = sheet_filename (example_env None None None)"
  "get_style_defs example_env_resources_dict = get_style_defs (example_env None None None)"
  "resources_missing example_env_resources_dict = Some (PStr [])"
  by (simp_all add: example_env_resources_dict_def sheet_filename_def)

lemma example_relative_custom_css_absent:
  "\<not> os_path_isfile (fs (example_env None None None)) (custom_css_filename [])"
  by (simp add: example_env_simps os_path_isfile_def example_files_def custom_css_filename_def
                os_path_join_def join2_def sep_def str_def)

text \<open>
  Claim C8 as stated fails: the resources lack the key \<^verbatim>\<open>config_dir\<close> and are of a class
  whose \<^verbatim>\<open>__missing__\<close> returns the empty string. The subscript of line 77 gives the
  empty string, \<^verbatim>\<open>custom/custom.css\<close> is not a file, and the call returns with two blocks
  stored and no error.
\<close>

theorem missing_config_dir_no_error_counterexample:
  "example_resources_no_config_dir (str ''config_dir'') = None
   \<and> resources_missing example_env_resources_dict = Some (PStr [])
   \<and> preprocess example_env_resources_dict example_self () example_resources_no_config_dir =
       (example_self,
        [ReadSheet (sheet_filename (example_env None None None))],
        example_resources_no_config_dir(str ''inlining'' \<mapsto> PDict [str ''css'' \<mapsto>
          PList [PStr [98, 123, 125], PStr (str ''.highlight .k{}'')]]),
        Inr ((), example_resources_no_config_dir(str ''inlining'' \<mapsto> PDict [str ''css'' \<mapsto>
          PList [PStr [98, 123, 125], PStr (str ''.highlight .k{}'')]])))"
proof -
  let ?E = "example_env_resources_dict"
  have key: "example_resources_no_config_dir (str ''config_dir'') = None"
    by (simp add: example_resources_no_config_dir_def str_def)
  have sheet: "io_open_read (fs ?E) (sheet_filename ?E) = Inr [98, 123, 125]"
    by (simp add: example_env_resources_dict_simps example_sheet)
  have found: "getitem ?E example_resources_no_config_dir (str ''config_dir'') = Inr (PStr [])"
    by (simp add: getitem_def key example_env_resources_dict_simps)
  have absent: "\<not> os_path_isfile (fs ?E) (custom_css_filename [])"
    by (simp add: example_env_resources_dict_simps example_relative_custom_css_absent)
  have style: "get_style_defs ?E (highlight_class example_self) = str ''.highlight .k{}''"
    by (simp add: example_env_resources_dict_simps example_env_simps example_self_def init_def
                  str_def)
  show ?thesis
    by (simp add: key preprocess_generate_header style
          generate_header_custom_absent_getitem
            [where resources = example_resources_no_config_dir, OF sheet found absent])
       (simp add: example_env_resources_dict_simps)
qed


subsection \<open>What the call changes in the resources (C3)\<close>

lemma css_not_js: "str ''js'' \<noteq> str ''css''"
  by (simp add: str_def)

text \<open>
  Claim C3, as amended. Line 41 binds \<^verbatim>\<open>resources['inlining']\<close> to a new dictionary, so
  whatever was under that key before the call is discarded. The call changes the entry
  \<^verbatim>\<open>inlining\<close> of the resources and no other: after the call it holds a dictionary with
  no key other than \<^verbatim>\<open>css\<close>, and with the key \<^verbatim>\<open>css\<close>, bound to the header, exactly
  when the call returns; the notebook is passed through.
\<close>

theorem preprocess_replaces_inlining_only:
  assumes "preprocess env self nb resources = (self', tr, resources', r)"
  shows "(\<forall>k. k \<noteq> str ''inlining'' \<longrightarrow> resources' k = resources k)
       \<and> (\<exists>d. resources' (str ''inlining'') = Some (PDict d)
              \<and> (\<forall>k. k \<noteq> str ''css'' \<longrightarrow> d k = None)
              \<and> (case r of
                    Inl e \<Rightarrow> d (str ''css'') = None
                  | Inr (nb', resources'') \<Rightarrow>
                      nb' = nb \<and> resources'' = resources'
                      \<and> (\<exists>header. d (str ''css'') = Some (PList (map PStr header)))))"
  using assms
  by (auto simp add: preprocess_generate_header split: prod.splits sum.splits)

lemma example_preprocess_js:
  "preprocess (example_env None None None) example_self () example_resources_js =
     (example_self,
      [ReadSheet (sheet_filename (example_env None None None))],
      example_resources_js(str ''inlining'' \<mapsto> PDict [str ''css'' \<mapsto>
        PList [PStr [98, 123, 125], PStr (str ''.highlight .k{}'')]]),
      Inr ((), example_resources_js(str ''inlining'' \<mapsto> PDict [str ''css'' \<mapsto>
        PList [PStr [98, 123, 125], PStr (str ''.highlight .k{}'')]])))"
proof -
  let ?E = "example_env None None None"
  have sheet: "io_open_read (fs ?E) (sheet_filename ?E) = Inr [98, 123, 125]"
    by (rule example_sheet)
  have key: "example_resources_js (str ''config_dir'') = Some (PStr (str ''/cfg''))"
    by (simp add: example_resources_js_def config_dir_not_inlining)
  have absent: "\<not> os_path_isfile (fs ?E) (custom_css_filename (str ''/cfg''))"
    by (rule example_not_isfile_custom)
  have hc: "get_style_defs ?E (highlight_class example_self) = str ''.highlight .k{}''"
    by (simp add: example_env_simps example_self_def init_def str_def)
  show ?thesis
    by (simp add: preprocess_generate_header hc
          generate_header_custom_absent [where resources = example_resources_js, OF sheet key absent])
qed

text \<open>The hypothesis of the amended C3 holds for a call in the example installation.\<close>

theorem preprocess_replaces_inlining_only_witness:
  "preprocess (example_env None None None) example_self () example_resources_js =
     (example_self,
      [ReadSheet (sheet_filename (example_env None None None))],
      example_resources_js(str ''inlining'' \<mapsto> PDict [str ''css'' \<mapsto>
        PList [PStr [98, 123, 125], PStr (str ''.highlight .k{}'')]]),
      Inr ((), example_resources_js(str ''inlining'' \<mapsto> PDict [str ''css'' \<mapsto>
        PList [PStr [98, 123, 125], PStr (str ''.highlight .k{}'')]])))
   \<and> (example_resources_js(str ''inlining'' \<mapsto> PDict [str ''css'' \<mapsto>
          PList [PStr [98, 123, 125], PStr (str ''.highlight .k{}'')]])) (str ''config_dir'')
      = example_resources_js (str ''config_dir'')"
proof -
  let ?after = "example_resources_js(str ''inlining'' \<mapsto> PDict [str ''css'' \<mapsto>
                  PList [PStr [98, 123, 125], PStr (str ''.highlight .k{}'')]])"
  from preprocess_replaces_inlining_only [OF example_preprocess_js]
  have "\<forall>k. k \<noteq> str ''inlining'' \<longrightarrow> ?after k = example_resources_js k"
    by (rule conjunct1)
  with config_dir_not_inlining
  have "?after (str ''config_dir'') = example_resources_js (str ''config_dir'')"
    by blast
  with example_preprocess_js show ?thesis
    by (rule conjI)
qed

text \<open>
  Claim C3 as stated fails: a key \<^verbatim>\<open>js\<close> that is under \<^verbatim>\<open>resources['inlining']\<close>
  before the call is no longer there after it.
\<close>

theorem inlining_keys_counterexample:
  "getitem2 example_resources_js (str ''inlining'') (str ''js'') = Some (PStr (str ''x''))
   \<and> getitem2 (fst (snd (snd (preprocess (example_env None None None) example_self ()
                                 example_resources_js))))
        (str ''inlining'') (str ''js'') = None"
  by (simp add: example_preprocess_js getitem2_def css_not_js)
     (simp add: example_resources_js_def)


subsection \<open>The order of the blocks (C4) and a failing default hash (C10)\<close>

lemma generate_header_success:
  assumes "generate_header env self resources = (self', tr, Inr header)"
  shows "\<exists>sheet. io_open_read (fs env) (sheet_filename env) = Inr sheet
           \<and> ((header = [sheet, get_style_defs env (highlight_class self)]
                 \<and> (\<forall>f. ReadCustom f \<notin> set tr))
              \<or> (\<exists>config_dir css.
                    getitem env resources (str ''config_dir'') = Inr (PStr config_dir)
                  \<and> io_open_read (fs env) (custom_css_filename config_dir) = Inr css
                  \<and> ReadCustom (custom_css_filename config_dir) \<in> set tr
                  \<and> header = [sheet, get_style_defs env (highlight_class self), css]))"
proof (cases "io_open_read (fs env) (sheet_filename env)")
  case (Inl e)
  with assms show ?thesis
    by (simp add: generate_header_def)
next
  case (Inr sheet)
  note sheet = this
  show ?thesis
  proof (cases "getitem env resources (str ''config_dir'')")
    case (Inl e)
    with assms sheet show ?thesis
      by (simp add: generate_header_def)
  next
    case (Inr v)
    note found = this
    show ?thesis
    proof (cases "\<exists>config_dir. v = PStr config_dir")
      case False
      with assms sheet found show ?thesis
        by (cases v) (simp_all add: generate_header_def)
    next
      case True
      then obtain config_dir where
        key: "getitem env resources (str ''config_dir'') = Inr (PStr config_dir)"
        using found by auto
      show ?thesis
      proof (cases "os_path_isfile (fs env) (custom_css_filename config_dir)")
        case False
        from assms
          generate_header_custom_absent_getitem [where resources = resources, OF sheet key False]
        show ?thesis
          using sheet by auto
      next
        case True
        from assms
          generate_header_custom_present_getitem [where resources = resources, OF sheet key True]
        show ?thesis
          using sheet key
          by (auto simp add: cache_default_css_hash_def append_custom_css_def
                   split: sum.splits option.splits prod.splits if_splits)
      qed
    qed
  qed
qed

text \<open>
  Claim C4. A call that returns has stored the base style sheet first and the highlighting
  CSS second; the text of the user's custom.css is the third and last block when that file
  was read for inclusion, and there is no third block otherwise. The configuration
  directory is what the subscript of line 77 gives, for any class of resources.
\<close>

theorem css_blocks_order:
  assumes "preprocess env self nb resources = (self', tr, resources', Inr (nb', resources''))"
  shows "\<exists>sheet. io_open_read (fs env) (sheet_filename env) = Inr sheet
           \<and> ((getitem2 resources'' (str ''inlining'') (str ''css'')
                   = Some (PList [PStr sheet, PStr (get_style_defs env (highlight_class self))])
                 \<and> (\<forall>f. ReadCustom f \<notin> set tr))
              \<or> (\<exists>config_dir css.
                    getitem env resources (str ''config_dir'') = Inr (PStr config_dir)
                  \<and> io_open_read (fs env) (custom_css_filename config_dir) = Inr css
                  \<and> ReadCustom (custom_css_filename config_dir) \<in> set tr
                  \<and> getitem2 resources'' (str ''inlining'') (str ''css'')
                      = Some (PList [PStr sheet, PStr (get_style_defs env (highlight_class self)),
                                     PStr css])))"
proof -
  from assms obtain header where
    gh: "generate_header env self resources = (self', tr, Inr header)" and
    res: "resources'' = resources(str ''inlining'' \<mapsto>
            PDict [str ''css'' \<mapsto> PList (map PStr header)])"
    by (auto simp add: preprocess_generate_header split: prod.splits sum.splits)
  have stored: "getitem2 resources'' (str ''inlining'') (str ''css'')
                  = Some (PList (map PStr header))"
    by (simp add: res getitem2_def)
  from generate_header_success [OF gh] show ?thesis
    unfolding stored by auto
qed

lemma example_preprocess_b:
  "preprocess (example_env (Some (str ''/static'')) (Some [97, 10]) (Some [98, 10]))
       example_self () example_resources =
     (example_self\<lparr>default_css_hash := Some (md5 [97, 10])\<rparr>,
      [ReadSheet (str ''/pkg/resources/style.min.css''),
       HashDefault (str ''/static/custom/custom.css''),
       HashCustom (str ''/cfg/custom/custom.css''),
       ReadCustom (str ''/cfg/custom/custom.css'')],
      example_resources(str ''inlining'' \<mapsto> PDict [str ''css'' \<mapsto>
        PList [PStr [98, 123, 125], PStr (str ''.highlight .k{}''), PStr [98, 10]]]),
      Inr ((), example_resources(str ''inlining'' \<mapsto> PDict [str ''css'' \<mapsto>
        PList [PStr [98, 123, 125], PStr (str ''.highlight .k{}''), PStr [98, 10]]])))"
  by (simp add: preprocess_generate_header example_generate_header_b)

text \<open>
  The hypothesis of C4 holds for the first call in the example installation with a
  modified custom.css, which stores three blocks in this order.
\<close>

theorem css_blocks_order_witness:
  "preprocess (example_env (Some (str ''/static'')) (Some [97, 10]) (Some [98, 10]))
       example_self () example_resources =
     (example_self\<lparr>default_css_hash := Some (md5 [97, 10])\<rparr>,
      [ReadSheet (str ''/pkg/resources/style.min.css''),
       HashDefault (str ''/static/custom/custom.css''),
       HashCustom (str ''/cfg/custom/custom.css''),
       ReadCustom (str ''/cfg/custom/custom.css'')],
      example_resources(str ''inlining'' \<mapsto> PDict [str ''css'' \<mapsto>
        PList [PStr [98, 123, 125], PStr (str ''.highlight .k{}''), PStr [98, 10]]]),
      Inr ((), example_resources(str ''inlining'' \<mapsto> PDict [str ''css'' \<mapsto>
        PList [PStr [98, 123, 125], PStr (str ''.highlight .k{}''), PStr [98, 10]]])))
   \<and> getitem2 (example_resources(str ''inlining'' \<mapsto> PDict [str ''css'' \<mapsto>
        PList [PStr [98, 123, 125], PStr (str ''.highlight .k{}''), PStr [98, 10]]]))
        (str ''inlining'') (str ''css'')
      = Some (PList [PStr [98, 123, 125], PStr (str ''.highlight .k{}''), PStr [98, 10]])"
  using css_blocks_order [OF example_preprocess_b] example_preprocess_b
  by (simp add: getitem2_def)

text \<open>
  Claim C10. With a default location available, the user's custom.css present and the
  field not yet set, the call opens the default custom.css to hash it. When that file
  cannot be opened (it is missing, a directory or unreadable) or cannot be decoded, the
  hash fails, and the whole call fails with that error after these two files: the user's
  custom.css is neither hashed nor included.
\<close>

theorem default_hash_failure_is_fatal:
  assumes "io_open_read (fs env) (sheet_filename env) = Inr sheet"
      and "resources (str ''config_dir'') = Some (PStr config_dir)"
      and "os_path_isfile (fs env) (custom_css_filename config_dir)"
      and "DEFAULT_STATIC_FILES_PATH env = Some static"
      and "static \<noteq> []"
      and "default_css_hash self = None"
  shows "HashDefault (default_css_filename static)
           \<in> set (fst (snd (preprocess env self nb resources)))
       \<and> (\<forall>e. read_bytes (fs env) (default_css_filename static) = Inl e
              \<longrightarrow> hash env (default_css_filename static) = Inl e)
       \<and> (\<forall>e. hash env (default_css_filename static) = Inl e
              \<longrightarrow> preprocess env self nb resources =
                    (self,
                     [ReadSheet (sheet_filename env), HashDefault (default_css_filename static)],
                     resources(str ''inlining'' \<mapsto> PDict Map.empty),
                     Inl e))"
proof -
  note gh = generate_header_custom_present
              [where resources = resources and self = self, OF assms(1-3)]
  note cache = cache_default_css_hash_computed [OF assms(4-6)]
  have "HashDefault (default_css_filename static)
          \<in> set (fst (snd (preprocess env self nb resources)))"
    by (auto simp add: preprocess_generate_header gh cache split: sum.splits prod.splits)
  moreover have "\<forall>e. read_bytes (fs env) (default_css_filename static) = Inl e
              \<longrightarrow> hash env (default_css_filename static) = Inl e"
    by (simp add: hash_def text_read_def)
  moreover have "\<forall>e. hash env (default_css_filename static) = Inl e
              \<longrightarrow> preprocess env self nb resources =
                    (self,
                     [ReadSheet (sheet_filename env), HashDefault (default_css_filename static)],
                     resources(str ''inlining'' \<mapsto> PDict Map.empty),
                     Inl e)"
    by (simp add: preprocess_generate_header gh cache)
  ultimately show ?thesis
    by blast
qed

text \<open>
  The hypotheses of C10 hold in the example installation when the default custom.css is
  missing: the call fails with \<^verbatim>\<open>FileNotFoundError\<close> although the user's file is there.
\<close>

theorem default_hash_failure_is_fatal_witness:
  "io_open_read (fs (example_env (Some (str ''/static'')) None (Some [98, 10])))
      (sheet_filename (example_env (Some (str ''/static'')) None (Some [98, 10])))
     = Inr [98, 123, 125]
   \<and> example_resources (str ''config_dir'') = Some (PStr (str ''/cfg''))
   \<and> os_path_isfile (fs (example_env (Some (str ''/static'')) None (Some [98, 10])))
        (custom_css_filename (str ''/cfg''))
   \<and> DEFAULT_STATIC_FILES_PATH (example_env (Some (str ''/static'')) None (Some [98, 10]))
       = Some (str ''/static'')
   \<and> str ''/static'' \<noteq> []
   \<and> default_css_hash example_self = None
   \<and> hash (example_env (Some (str ''/static'')) None (Some [98, 10]))
        (default_css_filename (str ''/static''))
       = Inl (FileNotFoundError (default_css_filename (str ''/static'')))
   \<and> preprocess (example_env (Some (str ''/static'')) None (Some [98, 10]))
        example_self () example_resources =
       (example_self,
        [ReadSheet (sheet_filename (example_env (Some (str ''/static'')) None (Some [98, 10]))),
         HashDefault (default_css_filename (str ''/static''))],
        example_resources(str ''inlining'' \<mapsto> PDict Map.empty),
        Inl (FileNotFoundError (default_css_filename (str ''/static''))))"
proof -
  let ?E = "example_env (Some (str ''/static'')) None (Some [98, 10])"
  have sheet: "io_open_read (fs ?E) (sheet_filename ?E) = Inr [98, 123, 125]"
    by (rule example_sheet)
  have isfile: "os_path_isfile (fs ?E) (custom_css_filename (str ''/cfg''))"
    by (rule example_isfile_custom)
  have static: "DEFAULT_STATIC_FILES_PATH ?E = Some (str ''/static'')"
    by (simp add: example_env_simps)
  have nonempty: "str ''/static'' \<noteq> []"
    by (simp add: str_def)
  have unset: "default_css_hash example_self = None"
    by (simp add: example_self_def init_def)
  have missing: "hash ?E (default_css_filename (str ''/static''))
                   = Inl (FileNotFoundError (default_css_filename (str ''/static'')))"
    by (rule example_hash_default_missing)
  show ?thesis
    using default_hash_failure_is_fatal
            [where resources = example_resources and nb = "()",
             OF sheet example_resources_config_dir isfile static nonempty unset]
          sheet example_resources_config_dir isfile static nonempty unset missing
    by simp
qed


subsection \<open>No default location (C6) and what is hashed (C2)\<close>

lemma preprocess_self:
  "fst (preprocess env self nb resources) = fst (generate_header env self resources)"
  by (simp add: preprocess_generate_header split: prod.splits sum.splits)

lemma preprocess_trace:
  "fst (snd (preprocess env self nb resources)) = fst (snd (generate_header env self resources))"
  by (simp add: preprocess_generate_header split: prod.splits sum.splits)








text \<open>
  Claim C2, as amended. \<^verbatim>\<open>_hash\<close> opens the file in text mode and encodes the text
  again: the digest has 16 bytes and is the MD5 of \<^verbatim>\<open>str_to_bytes\<close> of the decoded text
  after universal newline translation, not of the bytes on disk. Two files whose decoded
  texts agree after that translation, as files that differ in line-ending style only do,
  have the same hash.
\<close>

theorem hash_of_text_not_of_raw_bytes:
  assumes "read_bytes (fs env) filename = Inr raw"
      and "locale_decode env raw = Some text"
  shows "hash env filename = Inr (md5 (str_to_bytes env (universal_newlines text)))
       \<and> length (md5 (str_to_bytes env (universal_newlines text))) = 16
       \<and> (read_bytes (fs env) filename' = Inr raw' \<and> locale_decode env raw' = Some text'
            \<and> universal_newlines text' = universal_newlines text
          \<longrightarrow> hash env filename' = hash env filename)"
  using assms by (simp add: hash_def text_read_def md5_length)

lemma example_read_bytes_default:
  "read_bytes (fs (example_env static (Some d) custom)) (default_css_filename (str ''/static''))
     = Inr d"
  by (simp add: read_bytes_def example_env_simps example_default_css_filename example_files_default)

lemma example_read_bytes_custom:
  "read_bytes (fs (example_env static dflt (Some c))) (custom_css_filename (str ''/cfg''))
     = Inr c"
  by (simp add: read_bytes_def example_env_simps example_custom_css_filename example_files_custom)

text \<open>
  The hypotheses of the amended C2 hold for the default custom.css of the example
  installation, and the user's file with CRLF line endings has the same hash.
\<close>

theorem hash_of_text_not_of_raw_bytes_witness:
  "read_bytes (fs (example_env (Some (str ''/static'')) (Some [97, 10]) (Some [97, 13, 10])))
      (default_css_filename (str ''/static'')) = Inr [97, 10]
   \<and> locale_decode (example_env (Some (str ''/static'')) (Some [97, 10]) (Some [97, 13, 10]))
        [97, 10] = Some [97, 10]
   \<and> hash (example_env (Some (str ''/static'')) (Some [97, 10]) (Some [97, 13, 10]))
        (default_css_filename (str ''/static'')) = Inr (md5 [97, 10])
   \<and> length (md5 [97, 10]) = 16
   \<and> hash (example_env (Some (str ''/static'')) (Some [97, 10]) (Some [97, 13, 10]))
        (custom_css_filename (str ''/cfg''))
      = hash (example_env (Some (str ''/static'')) (Some [97, 10]) (Some [97, 13, 10]))
          (default_css_filename (str ''/static''))"
proof -
  let ?E = "example_env (Some (str ''/static'')) (Some [97, 10]) (Some [97, 13, 10])"
  have raw: "read_bytes (fs ?E) (default_css_filename (str ''/static'')) = Inr [97, 10]"
    by (rule example_read_bytes_default)
  have dec: "locale_decode ?E [97, 10] = Some [97, 10]"
    by (simp add: example_env_simps)
  have raw': "read_bytes (fs ?E) (custom_css_filename (str ''/cfg'')) = Inr [97, 13, 10]"
    by (rule example_read_bytes_custom)
  have dec': "locale_decode ?E [97, 13, 10] = Some [97, 13, 10]"
    by (simp add: example_env_simps)
  have enc: "str_to_bytes ?E [97, 10] = [97, 10]"
    by (simp add: example_env_simps utf8_encode_a)
  show ?thesis
    using hash_of_text_not_of_raw_bytes
            [OF raw dec, where filename' = "custom_css_filename (str ''/cfg'')"
               and raw' = "[97, 13, 10]" and text' = "[97, 13, 10]"]
          raw dec raw' dec'
    by (simp add: enc)
qed

text \<open>
  Claim C2 as stated fails: the default custom.css holds \<^verbatim>\<open>a\n\<close> and the user's file
  \<^verbatim>\<open>a\r\n\<close>, two files that differ in line-ending style only, and both have the hash
  of \<^verbatim>\<open>a\n\<close>.
\<close>

theorem line_endings_hash_counterexample:
  "read_bytes (fs (example_env (Some (str ''/static'')) (Some [97, 10]) (Some [97, 13, 10])))
      (default_css_filename (str ''/static'')) = Inr [97, 10]
   \<and> read_bytes (fs (example_env (Some (str ''/static'')) (Some [97, 10]) (Some [97, 13, 10])))
        (custom_css_filename (str ''/cfg'')) = Inr [97, 13, 10]
   \<and> hash (example_env (Some (str ''/static'')) (Some [97, 10]) (Some [97, 13, 10]))
        (default_css_filename (str ''/static'')) = Inr (md5 [97, 10])
   \<and> hash (example_env (Some (str ''/static'')) (Some [97, 10]) (Some [97, 13, 10]))
        (custom_css_filename (str ''/cfg'')) = Inr (md5 [97, 10])"
  by (simp add: example_read_bytes_default example_read_bytes_custom example_hash_default
                example_hash_custom_crlf)


subsection \<open>Change detection (C1) and the memoised default hash (C5)\<close>

text \<open>
  Claim C1, as amended. With a default location available and the user's custom.css
  present, the text of that file is appended exactly when its hash differs from the value
  of the field after line 81: the hash of the default custom.css computed by this call
  when the field was not set, the value kept from an earlier call otherwise. When both
  files hold the same bytes and the field was not set, the hashes agree and the file is
  left out. The hash is taken of the text after decoding and newline translation, so a
  file whose bytes differ from the default ones is included only when the hashes differ.
\<close>

theorem custom_css_included_iff_hash_differs:
  assumes "io_open_read (fs env) (sheet_filename env) = Inr sheet"
      and "resources (str ''config_dir'') = Some (PStr config_dir)"
      and "os_path_isfile (fs env) (custom_css_filename config_dir)"
      and "DEFAULT_STATIC_FILES_PATH env = Some static"
      and "static \<noteq> []"
      and "(case default_css_hash self of
              None \<Rightarrow> hash env (default_css_filename static)
            | Some h \<Rightarrow> Inr h) = Inr dh"
      and "hash env (custom_css_filename config_dir) = Inr ch"
      and "io_open_read (fs env) (custom_css_filename config_dir) = Inr css"
  shows "default_css_hash (fst (preprocess env self nb resources)) = Some dh
       \<and> snd (snd (snd (preprocess env self nb resources))) =
           Inr (nb, resources(str ''inlining'' \<mapsto> PDict [str ''css'' \<mapsto> PList (map PStr
                  (if ch \<noteq> dh
                   then [sheet, get_style_defs env (highlight_class self), css]
                   else [sheet, get_style_defs env (highlight_class self)]))]))
       \<and> (default_css_hash self = None
            \<and> read_bytes (fs env) (default_css_filename static) = Inr raw
            \<and> read_bytes (fs env) (custom_css_filename config_dir) = Inr raw
          \<longrightarrow> ch = dh)"
proof -
  note gh = generate_header_custom_present
              [where resources = resources and self = self, OF assms(1-3)]
  have same: "ch = dh"
    if "default_css_hash self = None"
      and "read_bytes (fs env) (default_css_filename static) = Inr raw"
      and "read_bytes (fs env) (custom_css_filename config_dir) = Inr raw"
    using that assms(6,7) by (simp add: hash_def text_read_def split: option.splits)
  show ?thesis
  proof (cases "default_css_hash self")
    case None
    with assms(6) have dh: "hash env (default_css_filename static) = Inr dh"
      by simp
    show ?thesis
      using same
      by (simp add: preprocess_generate_header gh
            cache_default_css_hash_computed [OF assms(4,5) None] dh
            append_custom_css_def assms(7,8))
  next
    case (Some h)
    with assms(6) have dh: "h = dh"
      by simp
    show ?thesis
      by (simp add: preprocess_generate_header gh
            cache_default_css_hash_kept [OF Some] Some dh
            append_custom_css_def assms(7,8))
  qed
qed

text \<open>
  The hypotheses of the amended C1 hold for the first call in the example installation
  with a modified custom.css: the hashes differ and the file is included.
\<close>

theorem custom_css_included_iff_hash_differs_witness:
  "io_open_read (fs (example_env (Some (str ''/static'')) (Some [97, 10]) (Some [98, 10])))
      (sheet_filename (example_env (Some (str ''/static'')) (Some [97, 10]) (Some [98, 10])))
     = Inr [98, 123, 125]
   \<and> example_resources (str ''config_dir'') = Some (PStr (str ''/cfg''))
   \<and> os_path_isfile (fs (example_env (Some (str ''/static'')) (Some [97, 10]) (Some [98, 10])))
        (custom_css_filename (str ''/cfg''))
   \<and> DEFAULT_STATIC_FILES_PATH (example_env (Some (str ''/static'')) (Some [97, 10]) (Some [98, 10]))
       = Some (str ''/static'')
   \<and> str ''/static'' \<noteq> []
   \<and> default_css_hash example_self = None
   \<and> hash (example_env (Some (str ''/static'')) (Some [97, 10]) (Some [98, 10]))
        (default_css_filename (str ''/static'')) = Inr (md5 [97, 10])
   \<and> hash (example_env (Some (str ''/static'')) (Some [97, 10]) (Some [98, 10]))
        (custom_css_filename (str ''/cfg'')) = Inr (md5 [98, 10])
   \<and> io_open_read (fs (example_env (Some (str ''/static'')) (Some [97, 10]) (Some [98, 10])))
        (custom_css_filename (str ''/cfg'')) = Inr [98, 10]
   \<and> md5 [98, 10] \<noteq> md5 [97, 10]
   \<and> snd (snd (snd (preprocess
          (example_env (Some (str ''/static'')) (Some [97, 10]) (Some [98, 10]))
          example_self () example_resources))) =
       Inr ((), example_resources(str ''inlining'' \<mapsto> PDict [str ''css'' \<mapsto>
         PList [PStr [98, 123, 125], PStr (str ''.highlight .k{}''), PStr [98, 10]]]))"
proof -
  let ?E = "example_env (Some (str ''/static'')) (Some [97, 10]) (Some [98, 10])"
  have sheet: "io_open_read (fs ?E) (sheet_filename ?E) = Inr [98, 123, 125]"
    by (rule example_sheet)
  have isfile: "os_path_isfile (fs ?E) (custom_css_filename (str ''/cfg''))"
    by (rule example_isfile_custom)
  have static: "DEFAULT_STATIC_FILES_PATH ?E = Some (str ''/static'')"
    by (simp add: example_env_simps)
  have nonempty: "str ''/static'' \<noteq> []"
    by (simp add: str_def)
  have unset: "default_css_hash example_self = None"
    by (simp add: example_self_def init_def)
  have hd: "hash ?E (default_css_filename (str ''/static'')) = Inr (md5 [97, 10])"
    by (rule example_hash_default)
  have cached: "(case default_css_hash example_self of
                   None \<Rightarrow> hash ?E (default_css_filename (str ''/static''))
                 | Some h \<Rightarrow> Inr h) = Inr (md5 [97, 10])"
    by (simp add: unset hd)
  have hc: "hash ?E (custom_css_filename (str ''/cfg'')) = Inr (md5 [98, 10])"
    by (rule example_hash_custom_b)
  have css: "io_open_read (fs ?E) (custom_css_filename (str ''/cfg'')) = Inr [98, 10]"
    by (rule example_read_custom_b)
  have style: "get_style_defs ?E (highlight_class example_self) = str ''.highlight .k{}''"
    by (simp add: example_env_simps example_self_def init_def str_def)
  show ?thesis
    using custom_css_included_iff_hash_differs
            [where resources = example_resources and nb = "()" and self = example_self,
             OF sheet example_resources_config_dir isfile static nonempty cached hc css]
          sheet example_resources_config_dir isfile static nonempty unset hd hc css
          md5_a_b [symmetric]
    by (simp add: style)
qed

lemma example_generate_header_crlf:
  "generate_header (example_env (Some (str ''/static'')) (Some [97, 10]) (Some [97, 13, 10]))
       example_self example_resources =
     (example_self\<lparr>default_css_hash := Some (md5 [97, 10])\<rparr>,
      [ReadSheet (str ''/pkg/resources/style.min.css''),
       HashDefault (str ''/static/custom/custom.css''),
       HashCustom (str ''/cfg/custom/custom.css'')],
      Inr ([98, 123, 125] # [str ''.highlight .k{}'']))"
proof -
  let ?E = "example_env (Some (str ''/static'')) (Some [97, 10]) (Some [97, 13, 10])"
  have sheet: "io_open_read (fs ?E) (sheet_filename ?E) = Inr [98, 123, 125]"
    by (rule example_sheet)
  have isfile: "os_path_isfile (fs ?E) (custom_css_filename (str ''/cfg''))"
    by (rule example_isfile_custom)
  have nonempty: "str ''/static'' \<noteq> []"
    by (simp add: str_def)
  have hc: "str ''.highlight'' @ str '' .k{}'' = str ''.highlight .k{}''"
    by (simp add: str_def)
  show ?thesis
    by (simp add: generate_header_custom_present
                    [where resources = example_resources, OF sheet example_resources_config_dir isfile]
          cache_default_css_hash_def append_custom_css_def example_env_simps(3,4) nonempty
          example_hash_default example_hash_custom_crlf
          example_self_def init_def example_sheet_filename hc
          example_default_css_filename [symmetric] example_custom_css_filename [symmetric])
qed

text \<open>
  Claim C1 as stated fails: the user's custom.css holds \<^verbatim>\<open>a\r\n\<close>, the default one
  \<^verbatim>\<open>a\n\<close>; the bytes differ, the hashes do not, and the file is not included.
\<close>

theorem differing_bytes_excluded_counterexample:
  "read_bytes (fs (example_env (Some (str ''/static'')) (Some [97, 10]) (Some [97, 13, 10])))
      (default_css_filename (str ''/static'')) = Inr [97, 10]
   \<and> read_bytes (fs (example_env (Some (str ''/static'')) (Some [97, 10]) (Some [97, 13, 10])))
        (custom_css_filename (str ''/cfg'')) = Inr [97, 13, 10]
   \<and> snd (snd (snd (preprocess
          (example_env (Some (str ''/static'')) (Some [97, 10]) (Some [97, 13, 10]))
          example_self () example_resources))) =
       Inr ((), example_resources(str ''inlining'' \<mapsto> PDict [str ''css'' \<mapsto>
         PList [PStr [98, 123, 125], PStr (str ''.highlight .k{}'')]]))"
  by (simp add: example_read_bytes_default example_read_bytes_custom
                preprocess_generate_header example_generate_header_crlf)

lemma generate_header_cache_set:
  assumes "default_css_hash self = Some h"
  shows "fst (generate_header env self resources) = self"
    and "\<not> list_ex is_HashDefault (fst (snd (generate_header env self resources)))"
  by (simp_all add: generate_header_def Let_def cache_default_css_hash_kept [OF assms]
                    append_custom_css_def
               split: sum.splits option.splits pyval.splits prod.splits)

lemma invocations_cache_set:
  "default_css_hash self = Some h \<Longrightarrow> invocations self calls = self"
proof (induction calls)
  case Nil
  show ?case by simp
next
  case (Cons c calls)
  obtain env res where c: "c = (env, res)"
    by (cases c)
  from Cons show ?case
    by (simp add: c preprocess_self generate_header_cache_set(1))
qed

lemma computes_default_hash_set:
  assumes "default_css_hash self = Some h"
  shows "\<not> computes_default_hash env self res"
proof -
  have "\<not> list_ex is_HashDefault (fst (snd (preprocess env self () res)))"
    by (simp add: preprocess_trace generate_header_cache_set(2) [OF assms])
  then show ?thesis
    by (auto simp add: computes_default_hash_def split: prod.splits)
qed

lemma default_hash_computations_set:
  "default_css_hash self = Some h \<Longrightarrow> default_hash_computations self calls = 0"
proof (induction calls)
  case Nil
  show ?case by simp
next
  case (Cons c calls)
  obtain env res where c: "c = (env, res)"
    by (cases c)
  from Cons show ?case
    by (simp add: c preprocess_self generate_header_cache_set(1) computes_default_hash_set)
qed

lemma computes_default_hash_unset:
  assumes "default_css_hash self = None"
  shows "computes_default_hash env self res
           \<longleftrightarrow> default_css_hash (fst (preprocess env self () res)) \<noteq> None"
  using assms
  by (auto simp add: computes_default_hash_def preprocess_generate_header generate_header_def
                     cache_default_css_hash_def Let_def
           split: sum.splits option.splits pyval.splits prod.splits if_splits)

lemma default_hash_computations_unset:
  "default_css_hash self = None \<Longrightarrow>
   default_hash_computations self calls
     = (if default_css_hash (invocations self calls) \<noteq> None then 1 else 0)"
proof (induction calls arbitrary: self)
  case Nil
  then show ?case by simp
next
  case (Cons c calls)
  obtain env res where c: "c = (env, res)"
    by (cases c)
  let ?self' = "fst (preprocess env self () res)"
  show ?case
  proof (cases "default_css_hash ?self'")
    case None
    with Cons.prems have "\<not> computes_default_hash env self res"
      by (simp add: computes_default_hash_unset)
    with Cons.IH [OF None] show ?thesis
      by (simp add: c)
  next
    case (Some h)
    with Cons.prems have "computes_default_hash env self res"
      by (simp add: computes_default_hash_unset)
    with Some show ?thesis
      by (simp add: c default_hash_computations_set [OF Some] invocations_cache_set [OF Some])
  qed
qed

text \<open>
  Claim C5, as amended. Over any sequence of calls on a new instance the hash of the
  default custom.css is computed at most once, and once exactly when the field is set at
  the end; an instance whose calls never reach line 81 with a default location, or whose
  every hash of the default file fails, never computes it. Once the field is set, a call
  leaves it as it is and does not open the default custom.css for hashing.
\<close>

theorem default_hash_computed_at_most_once:
  "default_hash_computations (init hc) calls \<le> 1
   \<and> (default_hash_computations (init hc) calls = 1
        \<longleftrightarrow> default_css_hash (invocations (init hc) calls) \<noteq> None)
   \<and> (default_css_hash self = Some h
        \<longrightarrow> default_css_hash (fst (preprocess env self nb resources)) = Some h
          \<and> \<not> list_ex is_HashDefault (fst (snd (preprocess env self nb resources))))"
proof -
  have unset: "default_css_hash (init hc) = None"
    by (simp add: init_def)
  show ?thesis
    by (simp add: default_hash_computations_unset [OF unset] preprocess_self preprocess_trace
                  generate_header_cache_set)
qed

lemma example_invocations_b:
  "invocations (init (str ''.highlight''))
     [(example_env (Some (str ''/static'')) (Some [97, 10]) (Some [98, 10]), example_resources),
      (example_env (Some (str ''/static'')) (Some [97, 10]) (Some [98, 10]), example_resources)]
   = example_self\<lparr>default_css_hash := Some (md5 [97, 10])\<rparr>"
proof -
  have cached: "default_css_hash (example_self\<lparr>default_css_hash := Some (md5 [97, 10])\<rparr>)
                  = Some (md5 [97, 10])"
    by simp
  show ?thesis
    by (simp add: example_self_def [symmetric] preprocess_self example_generate_header_b
                  generate_header_cache_set(1) [OF cached])
qed

text \<open>
  In the example installation with a modified custom.css, two calls compute the hash of
  the default file once: the second call finds the field set and leaves it.
\<close>

theorem default_hash_computed_at_most_once_witness:
  "default_hash_computations (init (str ''.highlight''))
     [(example_env (Some (str ''/static'')) (Some [97, 10]) (Some [98, 10]), example_resources),
      (example_env (Some (str ''/static'')) (Some [97, 10]) (Some [98, 10]), example_resources)]
   = 1
   \<and> default_css_hash (example_self\<lparr>default_css_hash := Some (md5 [97, 10])\<rparr>)
       = Some (md5 [97, 10])
   \<and> default_css_hash (fst (preprocess
          (example_env (Some (str ''/static'')) (Some [97, 10]) (Some [98, 10]))
          (example_self\<lparr>default_css_hash := Some (md5 [97, 10])\<rparr>) () example_resources))
       = Some (md5 [97, 10])
   \<and> \<not> list_ex is_HashDefault (fst (snd (preprocess
          (example_env (Some (str ''/static'')) (Some [97, 10]) (Some [98, 10]))
          (example_self\<lparr>default_css_hash := Some (md5 [97, 10])\<rparr>) () example_resources)))"
proof -
  let ?E = "example_env (Some (str ''/static'')) (Some [97, 10]) (Some [98, 10])"
  let ?calls = "[(?E, example_resources), (?E, example_resources)]"
  let ?self = "example_self\<lparr>default_css_hash := Some (md5 [97, 10])\<rparr>"
  note once = default_hash_computed_at_most_once
                [where hc = "str ''.highlight''" and calls = ?calls and self = ?self
                   and h = "md5 [97, 10]" and env = ?E and nb = "()"
                   and resources = example_resources]
  have cached: "default_css_hash ?self = Some (md5 [97, 10])"
    by simp
  have final: "default_css_hash (invocations (init (str ''.highlight'')) ?calls) \<noteq> None"
    by (simp only: example_invocations_b cached) simp
  from once final have "default_hash_computations (init (str ''.highlight'')) ?calls = 1"
    by blast
  moreover from once cached have
    "default_css_hash (fst (preprocess ?E ?self () example_resources)) = Some (md5 [97, 10])
     \<and> \<not> list_ex is_HashDefault (fst (snd (preprocess ?E ?self () example_resources)))"
    by blast
  ultimately show ?thesis
    using cached by blast
qed

lemma example_generate_header_absent:
  "generate_header (example_env (Some (str ''/static'')) (Some [97, 10]) None)
       example_self example_resources =
     (example_self,
      [ReadSheet (sheet_filename (example_env (Some (str ''/static'')) (Some [97, 10]) None))],
      Inr ([98, 123, 125] #
           [get_style_defs (example_env (Some (str ''/static'')) (Some [97, 10]) None)
              (highlight_class example_self)]))"
proof -
  let ?E = "example_env (Some (str ''/static'')) (Some [97, 10]) None"
  have sheet: "io_open_read (fs ?E) (sheet_filename ?E) = Inr [98, 123, 125]"
    by (rule example_sheet)
  have absent: "\<not> os_path_isfile (fs ?E) (custom_css_filename (str ''/cfg''))"
    by (rule example_not_isfile_custom)
  show ?thesis
    by (rule generate_header_custom_absent
               [where resources = example_resources, OF sheet example_resources_config_dir absent])
qed

text \<open>
  Claim C5 as stated fails: in the example installation a default location is available
  and the default custom.css is there, but the user has no custom.css. After two calls
  of one instance the hash of the default file has not been computed once, and the field
  is still \<open>None\<close>.
\<close>

theorem default_hash_never_computed_counterexample:
  "default_hash_computations example_self
     [(example_env (Some (str ''/static'')) (Some [97, 10]) None, example_resources),
      (example_env (Some (str ''/static'')) (Some [97, 10]) None, example_resources)]
   = 0
   \<and> default_css_hash (invocations example_self
        [(example_env (Some (str ''/static'')) (Some [97, 10]) None, example_resources),
         (example_env (Some (str ''/static'')) (Some [97, 10]) None, example_resources)])
      = None"
proof -
  let ?E = "example_env (Some (str ''/static'')) (Some [97, 10]) None"
  let ?calls = "[(?E, example_resources), (?E, example_resources)]"
  have unset: "default_css_hash example_self = None"
    by (simp add: example_self_def init_def)
  have inv: "invocations example_self ?calls = example_self"
    by (simp add: preprocess_self example_generate_header_absent)
  have "default_hash_computations example_self ?calls
          = (if default_css_hash (invocations example_self ?calls) \<noteq> None then 1 else 0)"
    by (rule default_hash_computations_unset [OF unset])
  then have "default_hash_computations example_self ?calls = 0"
    unfolding inv unset by simp
  moreover have "default_css_hash (invocations example_self ?calls) = None"
    unfolding inv by (rule unset)
  ultimately show ?thesis
    by (rule conjI)
qed

end
